theory Spec2Isabelle
  imports
    Main
    "HOL-Library.Multiset"
    "HOL-Library.Char_ord"
    "HOL-Library.List_Lexorder"
    "HOL-Library.Sublist"
begin

section \<open>Python values\<close>

text \<open>
  The values \<open>json.loads\<close> produces: \<open>None\<close>, \<open>bool\<close>, \<open>int\<close>, \<open>str\<close>, \<open>list\<close> and
  \<open>dict\<close>. A \<open>dict\<close> is an association list in insertion order (its keys are distinct).
  Floating-point numbers are left out: no code path modelled here computes with one.
  A \<open>str\<close> is a \<open>string\<close> with one \<open>char\<close> per code point (code points below 256).
\<close>

datatype json =
    JNull
  | JBool bool
  | JInt int
  | JStr string
  | JArr "json list"
  | JObj "(string \<times> json) list"

text \<open>The exceptions the modelled code can raise and does not catch.\<close>

datatype exn = AttributeError | TypeError | ValueError | JSONDecodeError | FileNotFoundError

text \<open>\<open>d[k] = v\<close> on a dict: an existing key keeps its position, a new key goes last.\<close>

fun dict_set :: "string \<Rightarrow> 'v \<Rightarrow> (string \<times> 'v) list \<Rightarrow> (string \<times> 'v) list" where
  "dict_set k v [] = [(k, v)]"
| "dict_set k v (p # ps) = (if fst p = k then (k, v) # ps else p # dict_set k v ps)"

text \<open>\<open>d.get(k, default)\<close>.\<close>

definition dict_get :: "(string \<times> 'v) list \<Rightarrow> string \<Rightarrow> 'v \<Rightarrow> 'v" where
  "dict_get d k dflt = (case map_of d k of None \<Rightarrow> dflt | Some v \<Rightarrow> v)"

text \<open>Truth value of an object, as \<open>if x:\<close> and \<open>x or y\<close> test it.\<close>

fun py_truthy :: "json \<Rightarrow> bool" where
  "py_truthy JNull = False"
| "py_truthy (JBool b) = b"
| "py_truthy (JInt n) = (n \<noteq> 0)"
| "py_truthy (JStr s) = (s \<noteq> [])"
| "py_truthy (JArr xs) = (xs \<noteq> [])"
| "py_truthy (JObj kvs) = (kvs \<noteq> [])"

text \<open>
  The values \<open>v\<close> with \<open>isinstance(v, int)\<close>: in Python \<open>bool\<close> is a subclass of \<open>int\<close>,
  \<open>True\<close> compares as 1 and \<open>False\<close> as 0, and \<open>str\<close> prints them as \<open>True\<close>, \<open>False\<close>.
\<close>

datatype pyint = PyInt int | PyBool bool

fun as_pyint :: "json \<Rightarrow> pyint option" where
  "as_pyint (JInt n) = Some (PyInt n)"
| "as_pyint (JBool b) = Some (PyBool b)"
| "as_pyint _ = None"

fun int_value :: "pyint \<Rightarrow> int" where
  "int_value (PyInt n) = n"
| "int_value (PyBool b) = (if b then 1 else 0)"

fun nat_digits :: "nat \<Rightarrow> string" where
  "nat_digits n =
     (if n < 10 then [''0123456789'' ! n]
      else nat_digits (n div 10) @ [''0123456789'' ! (n mod 10)])"

declare nat_digits.simps [simp del]

definition str_int :: "int \<Rightarrow> string" where
  "str_int n = (if n < 0 then CHR ''-'' # nat_digits (nat (- n)) else nat_digits (nat n))"

fun py_str :: "pyint \<Rightarrow> string" where
  "py_str (PyInt n) = str_int n"
| "py_str (PyBool b) = (if b then ''True'' else ''False'')"

text \<open>
  \<open>str.strip()\<close>: the characters for which \<open>str.isspace\<close> holds, below code point 256,
  are removed from both ends.
\<close>

definition is_space :: "char \<Rightarrow> bool" where
  "is_space c = (c \<in> set [CHR 0x09, CHR 0x0A, CHR 0x0B, CHR 0x0C, CHR 0x0D,
                           CHR 0x1C, CHR 0x1D, CHR 0x1E, CHR 0x1F, CHR 0x20,
                           CHR 0x85, CHR 0xA0])"

definition py_strip :: "string \<Rightarrow> string" where
  "py_strip s = rev (dropWhile is_space (rev (dropWhile is_space s)))"

section \<open>The world outside the process\<close>

text \<open>
  A path is the list of its components; \<open>triage_dir / "state.json"\<close> appends one.
  The file system maps the paths of regular files to their text. Each run of the external
  tool is logged with its arguments and its outcome. \<open>subprocess.run(..., check=True,
  timeout=30)\<close> returns, raises \<open>CalledProcessError\<close> (with the captured \<open>stderr\<close> and the
  text of \<open>str(exc)\<close>) or raises \<open>TimeoutExpired\<close>.
\<close>

type_synonym path = "string list"

datatype proc_result = Exited0 | CalledProcessError string string | TimeoutExpired

type_synonym call = "string list \<times> proc_result"

record world =
  fs :: "path \<Rightarrow> string option"
  calls :: "call list"

text \<open>
  What the handler is bound to (\<open>triage_dir\<close>, \<open>repo\<close>) and what it takes from libraries
  and the system: the JSON codec (\<open>json.loads\<close>, with \<open>None\<close> for a decode error, and
  \<open>json.dumps(_, indent=2)\<close>), the outcome of a tool run given the runs so far, the
  clock reading \<open>datetime.now(timezone.utc).isoformat()\<close> and the name
  \<open>tempfile.NamedTemporaryFile\<close> picks. Temporary comment files live in the system's
  temporary directory, outside \<open>fs\<close>; they are created and unlinked within one request.
\<close>

record env =
  triage_dir :: path
  repo :: string
  json_loads :: "string \<Rightarrow> json option"
  json_dumps :: "json \<Rightarrow> string"
  gh :: "call list \<Rightarrow> string list \<Rightarrow> proc_result"
  now_iso :: string
  tmppath :: string

section \<open>JSON helpers (server.py)\<close>

definition load_json :: "env \<Rightarrow> world \<Rightarrow> path \<Rightarrow> exn + json" where
  "load_json env w p =
     (case fs w p of
        Some text \<Rightarrow>
          (case json_loads env text of
             None \<Rightarrow> Inl JSONDecodeError
           | Some d \<Rightarrow> Inr d)
      | None \<Rightarrow> Inr (JObj []))"

text \<open>\<open>str.rfind(".")\<close>, with \<open>None\<close> for -1.\<close>

definition rfind_dot :: "string \<Rightarrow> nat option" where
  "rfind_dot name =
     (if CHR ''.'' \<in> set name
      then Some (length name - 1 - length (takeWhile (\<lambda>c. c \<noteq> CHR ''.'') (rev name)))
      else None)"

text \<open>\<open>PurePath.suffix\<close> of a file name.\<close>

definition py_suffix :: "string \<Rightarrow> string" where
  "py_suffix name =
     (case rfind_dot name of
        None \<Rightarrow> []
      | Some i \<Rightarrow> if 0 < i \<and> i < length name - 1 then drop i name else [])"

text \<open>\<open>PurePath.with_suffix\<close>, for a suffix that is well formed (as \<open>".tmp"\<close> is).\<close>

definition with_suffix :: "path \<Rightarrow> string \<Rightarrow> exn + path" where
  "with_suffix p sfx =
     (if p = [] \<or> last p = [] then Inl ValueError
      else
        let name = last p; old_suffix = py_suffix name;
            name' = (if old_suffix = [] then name @ sfx
                     else take (length name - length old_suffix) name @ sfx)
        in Inr (butlast p @ [name']))"

definition write_text :: "path \<Rightarrow> string \<Rightarrow> world \<Rightarrow> world" where
  "write_text p text w = w\<lparr>fs := (fs w)(p \<mapsto> text)\<rparr>"

text \<open>\<open>Path.rename\<close> (POSIX): replaces the target; renaming a file to itself does nothing.\<close>

definition rename_file :: "path \<Rightarrow> path \<Rightarrow> world \<Rightarrow> exn + world" where
  "rename_file src dst w =
     (case fs w src of
        None \<Rightarrow> Inl FileNotFoundError
      | Some text \<Rightarrow>
          if src = dst then Inr w
          else Inr (w\<lparr>fs := (fs w)(dst \<mapsto> text, src := None)\<rparr>))"

definition save_json :: "env \<Rightarrow> world \<Rightarrow> path \<Rightarrow> json \<Rightarrow> exn + world" where
  "save_json env w p data =
     (case with_suffix p ''.tmp'' of
        Inl e \<Rightarrow> Inl e
      | Inr tmp \<Rightarrow> rename_file tmp p (write_text tmp (json_dumps env data) w))"

section \<open>State helpers (server.py)\<close>

text \<open>
  \<open>mark_triaged\<close>. A loaded state that is not a dict, or whose \<open>triaged\<close> value is not a
  dict, makes the membership test or one of the two item assignments raise \<open>TypeError\<close>
  before anything is saved.
\<close>

definition state_path :: "env \<Rightarrow> path" where
  "state_path env = triage_dir env @ [''state.json'']"

definition mark_triaged ::
  "env \<Rightarrow> world \<Rightarrow> pyint \<Rightarrow> string \<Rightarrow> bool \<Rightarrow> json \<Rightarrow> exn + ((string \<times> json) list \<times> world)" where
  "mark_triaged env w num action comment_posted note =
     (case load_json env w (state_path env) of
        Inl e \<Rightarrow> Inl e
      | Inr loaded \<Rightarrow>
          (case loaded of
             JObj st \<Rightarrow>
               (let st1 = (if ''triaged'' \<notin> fst ` set st
                           then dict_set ''triaged'' (JObj []) st else st);
                    entry0 = [(''action'', JStr action), (''at'', JStr (now_iso env))];
                    entry1 = (if comment_posted
                              then dict_set ''comment_posted'' (JBool True) entry0
                              else entry0);
                    entry = (if py_truthy note then dict_set ''note'' note entry1 else entry1)
                in case dict_get st1 ''triaged'' JNull of
                     JObj tr \<Rightarrow>
                       (case save_json env w (state_path env)
                               (JObj (dict_set ''triaged''
                                        (JObj (dict_set (py_str num) (JObj entry) tr)) st1)) of
                          Inl e \<Rightarrow> Inl e
                        | Inr w' \<Rightarrow> Inr (entry, w'))
                   | _ \<Rightarrow> Inl TypeError)
           | _ \<Rightarrow> Inl TypeError))"

section \<open>The request handler (server.py)\<close>

text \<open>What a request ends in: a JSON response with its status, or an uncaught exception.\<close>

datatype outcome = Resp int json | Crash exn

definition send_error_json :: "int \<Rightarrow> string \<Rightarrow> outcome" where
  "send_error_json status message = Resp status (JObj [(''error'', JStr message)])"

definition failure_json :: "string \<Rightarrow> outcome" where
  "failure_json message = Resp 502 (JObj [(''ok'', JBool False), (''error'', JStr message)])"

definition success_json :: "string \<Rightarrow> (string \<times> json) list \<Rightarrow> outcome" where
  "success_json action entry =
     Resp 200 (JObj [(''ok'', JBool True), (''action'', JStr action), (''entry'', JObj entry)])"

text \<open>
  \<open>_run_gh\<close>: the \<open>try\<close>/\<open>except\<close> turns the outcome of the run into
  \<open>(success, error_message)\<close>; the run is logged in the world.
\<close>

definition gh_outcome :: "proc_result \<Rightarrow> bool \<times> string" where
  "gh_outcome r =
     (case r of
        Exited0 \<Rightarrow> (True, [])
      | CalledProcessError stderr text \<Rightarrow>
          (False, if stderr \<noteq> [] then py_strip stderr else text)
      | TimeoutExpired \<Rightarrow> (False, ''Command timed out''))"

definition run_gh :: "env \<Rightarrow> world \<Rightarrow> string list \<Rightarrow> (bool \<times> string) \<times> world" where
  "run_gh env w args =
     (let r = gh env (calls w) args
      in (gh_outcome r, w\<lparr>calls := calls w @ [(args, r)]\<rparr>))"

definition label_args :: "env \<Rightarrow> pyint \<Rightarrow> string \<Rightarrow> string list" where
  "label_args env num label =
     [''gh'', ''issue'', ''edit'', py_str num, ''--repo'', repo env, ''--add-label'', label]"

definition comment_args :: "env \<Rightarrow> pyint \<Rightarrow> string list" where
  "comment_args env num =
     [''gh'', ''issue'', ''comment'', py_str num, ''--repo'', repo env,
      ''--body-file'', tmppath env]"

definition close_args :: "env \<Rightarrow> pyint \<Rightarrow> string \<Rightarrow> string list" where
  "close_args env num reason =
     [''gh'', ''issue'', ''close'', py_str num, ''--repo'', repo env, ''--reason'', reason]"

text \<open>
  What \<open>for label in labels or []\<close> iterates over: a falsy value gives no iteration, a
  list its elements, a string its characters, a dict its keys; any other value is not
  iterable (\<open>TypeError\<close>).
\<close>

fun iter_or_empty :: "json \<Rightarrow> exn + json list" where
  "iter_or_empty (JArr xs) = Inr xs"
| "iter_or_empty (JStr s) = Inr (map (\<lambda>c. JStr [c]) s)"
| "iter_or_empty (JObj kvs) = Inr (map (\<lambda>p. JStr (fst p)) kvs)"
| "iter_or_empty v = (if py_truthy v then Inl TypeError else Inr [])"

text \<open>
  The label loop of \<open>_do_close\<close>: \<open>Some\<close> is the response of an early return (or the
  \<open>TypeError\<close> \<open>subprocess.run\<close> raises for an argument that is not a string), \<open>None\<close>
  means that the loop ran to its end.
\<close>

fun add_labels :: "env \<Rightarrow> pyint \<Rightarrow> json list \<Rightarrow> world \<Rightarrow> outcome option \<times> world" where
  "add_labels env num [] w = (None, w)"
| "add_labels env num (l # ls) w =
     (case l of
        JStr label \<Rightarrow>
          (case run_gh env w (label_args env num label) of
             ((ok, err), w') \<Rightarrow>
               if \<not> ok
               then (Some (failure_json (''Failed to add label '' @ [CHR 0x27] @ label
                                          @ [CHR 0x27] @ '': '' @ err)), w')
               else add_labels env num ls w')
      | _ \<Rightarrow> (Some (Crash TypeError), w))"

text \<open>The tail of \<open>_do_close\<close>: close the issue, then record the decision.\<close>

definition close_and_record ::
  "env \<Rightarrow> world \<Rightarrow> pyint \<Rightarrow> string \<Rightarrow> string \<Rightarrow> outcome \<times> world" where
  "close_and_record env w num comment reason =
     (case run_gh env w (close_args env num reason) of
        ((ok, err), w') \<Rightarrow>
          if \<not> ok then (failure_json (''Failed to close issue: '' @ err), w')
          else
            (case mark_triaged env w' num ''closed'' (py_strip comment \<noteq> []) (JStr []) of
               Inl e \<Rightarrow> (Crash e, w')
             | Inr (entry, w'') \<Rightarrow> (success_json ''closed'' entry, w'')))"

definition do_close ::
  "env \<Rightarrow> world \<Rightarrow> pyint \<Rightarrow> json \<Rightarrow> string \<Rightarrow> json \<Rightarrow> outcome \<times> world" where
  "do_close env w num comment reason labels =
     (case iter_or_empty labels of
        Inl e \<Rightarrow> (Crash e, w)
      | Inr ls \<Rightarrow>
          (case add_labels env num ls w of
             (Some out, w1) \<Rightarrow> (out, w1)
           | (None, w1) \<Rightarrow>
               (case comment of
                  JStr c \<Rightarrow>
                    if py_strip c \<noteq> []
                    then
                      (case run_gh env w1 (comment_args env num) of
                         ((ok, err), w2) \<Rightarrow>
                           if \<not> ok
                           then (failure_json (''Failed to post comment: '' @ err), w2)
                           else close_and_record env w2 num c reason)
                    else close_and_record env w1 num c reason
                | _ \<Rightarrow> (Crash AttributeError, w1))))"

definition do_comment :: "env \<Rightarrow> world \<Rightarrow> pyint \<Rightarrow> json \<Rightarrow> outcome \<times> world" where
  "do_comment env w num comment =
     (case comment of
        JStr c \<Rightarrow>
          if \<not> (py_strip c \<noteq> []) then (send_error_json 400 ''Comment cannot be empty'', w)
          else
            (case run_gh env w (comment_args env num) of
               ((ok, err), w1) \<Rightarrow>
                 if \<not> ok then (failure_json (''Failed to post comment: '' @ err), w1)
                 else
                   (case mark_triaged env w1 num ''commented'' True (JStr []) of
                      Inl e \<Rightarrow> (Crash e, w1)
                    | Inr (entry, w2) \<Rightarrow> (success_json ''commented'' entry, w2)))
      | _ \<Rightarrow> (Crash AttributeError, w))"

definition do_skip :: "env \<Rightarrow> world \<Rightarrow> pyint \<Rightarrow> json \<Rightarrow> outcome \<times> world" where
  "do_skip env w num note =
     (case mark_triaged env w num ''skipped'' False note of
        Inl e \<Rightarrow> (Crash e, w)
      | Inr (entry, w') \<Rightarrow> (success_json ''skipped'' entry, w'))"

text \<open>
  \<open>_handle_action\<close>, from the request's raw body. A body that decodes to something other
  than a dict has no \<open>get\<close> (\<open>AttributeError\<close>); \<open>["wontfix"] + labels\<close> raises
  \<open>TypeError\<close> unless \<open>labels\<close> is a list.
\<close>

definition handle_action :: "env \<Rightarrow> world \<Rightarrow> string \<Rightarrow> outcome \<times> world" where
  "handle_action env w raw =
     (case json_loads env raw of
        None \<Rightarrow> (send_error_json 400 ''Invalid JSON body'', w)
      | Some parsed \<Rightarrow>
          (case parsed of
             JObj body \<Rightarrow>
               (let number = dict_get body ''number'' JNull;
                    action = dict_get body ''action'' JNull;
                    comment = dict_get body ''comment'' (JStr [])
                in case as_pyint number of
                     None \<Rightarrow> (send_error_json 400 ''Invalid issue number'', w)
                   | Some num \<Rightarrow>
                       if int_value num \<le> 0
                       then (send_error_json 400 ''Invalid issue number'', w)
                       else if action \<notin> set [JStr ''close'', JStr ''close_wontfix'',
                                               JStr ''comment'', JStr ''skip'']
                       then (send_error_json 400
                               (''Action must be '' @ [CHR 0x27] @ ''close'' @ [CHR 0x27]
                                @ '', '' @ [CHR 0x27] @ ''close_wontfix'' @ [CHR 0x27]
                                @ '', '' @ [CHR 0x27] @ ''comment'' @ [CHR 0x27]
                                @ '', or '' @ [CHR 0x27] @ ''skip'' @ [CHR 0x27]), w)
                       else
                         (let labels = dict_get body ''labels'' (JArr []) in
                          if action = JStr ''close''
                          then do_close env w num comment ''completed'' labels
                          else if action = JStr ''close_wontfix''
                          then (case labels of
                                  JArr ls \<Rightarrow>
                                    do_close env w num comment ''not planned''
                                      (JArr (JStr ''wontfix'' # ls))
                                | _ \<Rightarrow> (Crash TypeError, w))
                          else if action = JStr ''comment''
                          then do_comment env w num comment
                          else do_skip env w num comment))
           | _ \<Rightarrow> (Crash AttributeError, w)))"

section \<open>The dashboard query (templates.py)\<close>

text \<open>
  The fields of an issue and of a finding that \<open>render_dashboard\<close> reads. A field read
  with \<open>d["k"]\<close> is always there; one read with \<open>d.get("k", ...)\<close> may be absent
  (\<open>None\<close>).
\<close>

record issue =
  i_number :: int
  i_title :: "string option"
  i_body :: "string option"
  i_created_at :: "string option"

record finding =
  f_number :: int
  f_verdict :: "string option"
  f_confidence :: "string option"

text \<open>The loop that fills \<open>findings_by_num\<close>: a later finding replaces an earlier one.\<close>

definition findings_by_num :: "finding list \<Rightarrow> int \<Rightarrow> finding option" where
  "findings_by_num fl = fold (\<lambda>f m. m(f_number f \<mapsto> f)) fl Map.empty"

text \<open>\<open>findings_by_num.get(n, {}).get("verdict")\<close>, and the same for the confidence.\<close>

definition verdict_of :: "(int \<Rightarrow> finding option) \<Rightarrow> issue \<Rightarrow> string option" where
  "verdict_of fbn i = (case fbn (i_number i) of None \<Rightarrow> None | Some f \<Rightarrow> f_verdict f)"

definition confidence_of :: "(int \<Rightarrow> finding option) \<Rightarrow> issue \<Rightarrow> string option" where
  "confidence_of fbn i = (case fbn (i_number i) of None \<Rightarrow> None | Some f \<Rightarrow> f_confidence f)"

text \<open>\<open>str.lower()\<close> on the code points below 256.\<close>

definition py_lower_char :: "char \<Rightarrow> char" where
  "py_lower_char c =
     (let n = (of_char c :: nat)
      in if (65 \<le> n \<and> n \<le> 90) \<or> (192 \<le> n \<and> n \<le> 222 \<and> n \<noteq> 215)
         then char_of (n + 32) else c)"

definition py_lower :: "string \<Rightarrow> string" where
  "py_lower s = map py_lower_char s"

text \<open>The query parameters: \<open>filters.get(k, default)\<close>.\<close>

definition filter_get :: "(string \<Rightarrow> string option) \<Rightarrow> string \<Rightarrow> string \<Rightarrow> string" where
  "filter_get filters k dflt = (case filters k of None \<Rightarrow> dflt | Some v \<Rightarrow> v)"

text \<open>The section \<open>Apply filters\<close> of \<open>render_dashboard\<close>.\<close>

definition apply_filters ::
  "(int \<Rightarrow> finding option) \<Rightarrow> (string \<times> json) list \<Rightarrow> (string \<Rightarrow> string option) \<Rightarrow>
   issue list \<Rightarrow> issue list" where
  "apply_filters fbn triaged filters issues =
     (let filtered = issues;
          verdict_filter = filter_get filters ''verdict'' [];
          filtered = (if verdict_filter \<noteq> []
                      then filter (\<lambda>i. verdict_of fbn i = Some verdict_filter) filtered
                      else filtered);
          confidence_filter = filter_get filters ''confidence'' [];
          filtered = (if confidence_filter \<noteq> []
                      then filter (\<lambda>i. confidence_of fbn i = Some confidence_filter) filtered
                      else filtered);
          q = filter_get filters ''q'' [];
          filtered = (if q \<noteq> []
                      then filter (\<lambda>i. sublist (py_lower q)
                                            (py_lower (case i_title i of None \<Rightarrow> [] | Some t \<Rightarrow> t))
                                        \<or> sublist (py_lower q)
                                            (py_lower (case i_body i of None \<Rightarrow> [] | Some b \<Rightarrow> b)))
                             filtered
                      else filtered);
          show = filter_get filters ''show'' ''all''
      in if show = ''pending''
         then filter (\<lambda>i. str_int (i_number i) \<notin> fst ` set triaged) filtered
         else if show = ''triaged''
         then filter (\<lambda>i. str_int (i_number i) \<in> fst ` set triaged) filtered
         else filtered)"

text \<open>The sort keys. \<open>list.sort(key=...)\<close> is stable, as \<open>sort_key\<close> is.\<close>

definition age_key :: "issue \<Rightarrow> string" where
  "age_key i = (case i_created_at i of None \<Rightarrow> [] | Some t \<Rightarrow> t)"

definition confidence_order :: "(string \<times> nat) list" where
  "confidence_order = [(''HIGH'', 0), (''MEDIUM'', 1), (''LOW'', 2), (''PENDING'', 3)]"

definition confidence_key :: "(int \<Rightarrow> finding option) \<Rightarrow> issue \<Rightarrow> nat" where
  "confidence_key fbn i =
     (case map_of confidence_order
             (case confidence_of fbn i of None \<Rightarrow> ''PENDING'' | Some c \<Rightarrow> c) of
        None \<Rightarrow> 3
      | Some r \<Rightarrow> r)"

text \<open>The section \<open>Sort\<close> of \<open>render_dashboard\<close>.\<close>

definition apply_sort ::
  "(int \<Rightarrow> finding option) \<Rightarrow> (string \<Rightarrow> string option) \<Rightarrow> issue list \<Rightarrow> issue list" where
  "apply_sort fbn filters filtered =
     (let sort_by = filter_get filters ''sort'' ''number''
      in if sort_by = ''age'' then sort_key age_key filtered
         else if sort_by = ''confidence'' then sort_key (confidence_key fbn) filtered
         else sort_key i_number filtered)"

text \<open>
  The issues \<open>render_dashboard\<close> puts in its table, in the order of the rows;
  \<open>findings\<close> is \<open>findings.get("issues", [])\<close> and \<open>triaged\<close> is
  \<open>state.get("triaged", {})\<close>.
\<close>

definition dashboard_rows ::
  "issue list \<Rightarrow> finding list \<Rightarrow> (string \<times> json) list \<Rightarrow> (string \<Rightarrow> string option) \<Rightarrow>
   issue list" where
  "dashboard_rows issues findings triaged filters =
     (let fbn = findings_by_num findings
      in apply_sort fbn filters (apply_filters fbn triaged filters issues))"

text \<open>The verdict and the confidence a row of the table shows for its issue.\<close>

definition row_verdict :: "(int \<Rightarrow> finding option) \<Rightarrow> issue \<Rightarrow> string" where
  "row_verdict fbn i = (case verdict_of fbn i of None \<Rightarrow> ''pending'' | Some v \<Rightarrow> v)"

definition row_confidence :: "(int \<Rightarrow> finding option) \<Rightarrow> issue \<Rightarrow> string" where
  "row_confidence fbn i = (case confidence_of fbn i of None \<Rightarrow> ''PENDING'' | Some c \<Rightarrow> c)"

section \<open>Notions used to state the properties\<close>

text \<open>The temporary sibling \<open>save_json\<close> writes \<open>state.json\<close> through.\<close>

definition state_tmp :: "env \<Rightarrow> path" where
  "state_tmp env = triage_dir env @ [''state.tmp'']"

text \<open>
  The \<open>triaged\<close> mapping of a state document: empty when the key is absent, \<open>None\<close>
  when its value is not a dict.
\<close>

definition triaged_of :: "(string \<times> json) list \<Rightarrow> (string \<times> json) list option" where
  "triaged_of st =
     (case map_of st ''triaged'' of
        None \<Rightarrow> Some []
      | Some (JObj tr) \<Rightarrow> Some tr
      | Some _ \<Rightarrow> None)"

text \<open>The entry \<open>mark_triaged\<close> builds, written out as a list of its fields.\<close>

definition new_entry :: "env \<Rightarrow> string \<Rightarrow> bool \<Rightarrow> json \<Rightarrow> (string \<times> json) list" where
  "new_entry env action comment_posted note =
     [(''action'', JStr action), (''at'', JStr (now_iso env))]
     @ (if comment_posted then [(''comment_posted'', JBool True)] else [])
     @ (if py_truthy note then [(''note'', note)] else [])"

text \<open>
  A sequence of tool runs in which every run succeeded, and one that ended with its
  first failed run.
\<close>

definition all_succeeded :: "call list \<Rightarrow> bool" where
  "all_succeeded cs = list_all (\<lambda>c. snd c = Exited0) cs"

definition stopped_at_first_failure :: "call list \<Rightarrow> bool" where
  "stopped_at_first_failure cs =
     (cs \<noteq> [] \<and> all_succeeded (butlast cs) \<and> snd (last cs) \<noteq> Exited0)"

section \<open>Example data\<close>

text \<open>
  A triage directory whose \<open>state.json\<close> holds two decisions, a few request bodies, and a
  codec that knows these documents by the (abbreviated) texts that stand for them.
\<close>

definition ex_dir :: path where
  "ex_dir = [''srv'', ''triage'']"

definition ex_triaged :: "(string \<times> json) list" where
  "ex_triaged =
     [(''101'', JObj [(''action'', JStr ''skipped''), (''at'', JStr ''2025-02-11T10:00:00+00:00''),
                      (''note'', JStr ''later'')]),
      (''7'', JObj [(''action'', JStr ''closed''), (''at'', JStr ''2025-02-12T10:00:00+00:00''),
                    (''comment_posted'', JBool True)])]"

definition ex_state :: "(string \<times> json) list" where
  "ex_state = [(''repo'', JStr ''owner/repo''), (''triaged'', JObj ex_triaged)]"

definition ex_body_skip :: "(string \<times> json) list" where
  "ex_body_skip =
     [(''number'', JInt 102), (''action'', JStr ''skip''), (''comment'', JStr ''not now'')]"

definition ex_body_true :: "(string \<times> json) list" where
  "ex_body_true = [(''number'', JBool True), (''action'', JStr ''skip'')]"

definition ex_body_wontfix :: "(string \<times> json) list" where
  "ex_body_wontfix =
     [(''number'', JInt 102), (''action'', JStr ''close_wontfix''),
      (''comment'', JStr ''Stale issue.''), (''labels'', JArr [JStr ''stale''])]"

definition ex_body_close_labels :: "(string \<times> json) list" where
  "ex_body_close_labels =
     [(''number'', JInt 102), (''action'', JStr ''close''),
      (''comment'', JStr '' ''), (''labels'', JArr [JStr ''bug''])]"

definition ex_body_comment :: "(string \<times> json) list" where
  "ex_body_comment =
     [(''number'', JInt 102), (''action'', JStr ''comment''), (''comment'', JStr ''Nice work!'')]"

definition ex_body_blank :: "(string \<times> json) list" where
  "ex_body_blank =
     [(''number'', JInt 102), (''action'', JStr ''comment''), (''comment'', JStr ''  '')]"

definition ex_texts :: "(string \<times> json) list" where
  "ex_texts =
     [(''state-0'', JObj ex_state),
      (''req-skip'', JObj ex_body_skip),
      (''req-true'', JObj ex_body_true),
      (''req-wontfix'', JObj ex_body_wontfix),
      (''req-close-labels'', JObj ex_body_close_labels),
      (''req-comment'', JObj ex_body_comment),
      (''req-blank'', JObj ex_body_blank)]"

definition ex_loads :: "string \<Rightarrow> json option" where
  "ex_loads text = map_of ex_texts text"

definition ex_dumps :: "json \<Rightarrow> string" where
  "ex_dumps d = (case find (\<lambda>p. snd p = d) ex_texts of Some p \<Rightarrow> fst p | None \<Rightarrow> ''state-1'')"

definition ex_gh_ok :: "call list \<Rightarrow> string list \<Rightarrow> proc_result" where
  "ex_gh_ok history args = Exited0"

definition ex_gh_close_fails :: "call list \<Rightarrow> string list \<Rightarrow> proc_result" where
  "ex_gh_close_fails history args =
     (if ''close'' \<in> set args
      then CalledProcessError '' issue not found  '' ''Command returned non-zero exit status 1.''
      else Exited0)"

definition ex_env :: env where
  "ex_env = \<lparr>triage_dir = ex_dir, repo = ''owner/repo'', json_loads = ex_loads,
             json_dumps = ex_dumps, gh = ex_gh_ok,
             now_iso = ''2025-03-01T09:30:00+00:00'', tmppath = ''/tmp/tmpk3v9.md''\<rparr>"

definition ex_env_close_fails :: env where
  "ex_env_close_fails = ex_env\<lparr>gh := ex_gh_close_fails\<rparr>"

definition ex_world :: world where
  "ex_world = \<lparr>fs = [ex_dir @ [''state.json''] \<mapsto> ''state-0''], calls = []\<rparr>"

text \<open>
  Four issues in the order the issue list has them, findings for two of them, and a few
  query parameters.
\<close>

definition ex_issues :: "issue list" where
  "ex_issues =
     [\<lparr>i_number = 103, i_title = Some ''Docs: typo'',
       i_body = Some ''Small typo in the README.'',
       i_created_at = Some ''2025-02-01T08:00:00Z''\<rparr>,
      \<lparr>i_number = 102, i_title = Some ''Feature: dark mode'',
       i_body = Some ''Please add dark mode support.'',
       i_created_at = Some ''2025-02-01T08:00:00Z''\<rparr>,
      \<lparr>i_number = 101, i_title = Some ''Bug: crash on startup'',
       i_body = Some ''App crashes immediately after launch.'',
       i_created_at = Some ''2025-01-15T10:00:00Z''\<rparr>,
      \<lparr>i_number = 100, i_title = Some ''Question'', i_body = None, i_created_at = None\<rparr>]"

definition ex_findings :: "finding list" where
  "ex_findings =
     [\<lparr>f_number = 101, f_verdict = Some ''likely_resolved'', f_confidence = Some ''HIGH''\<rparr>,
      \<lparr>f_number = 102, f_verdict = Some ''still_open'', f_confidence = Some ''MEDIUM''\<rparr>]"

definition ex_filter_verdict_pending :: "string \<Rightarrow> string option" where
  "ex_filter_verdict_pending = map_of [(''verdict'', ''pending'')]"

definition ex_filter_confidence_pending :: "string \<Rightarrow> string option" where
  "ex_filter_confidence_pending = map_of [(''confidence'', ''PENDING'')]"

definition ex_sort_confidence :: "string \<Rightarrow> string option" where
  "ex_sort_confidence = map_of [(''sort'', ''confidence'')]"

definition ex_sort_age :: "string \<Rightarrow> string option" where
  "ex_sort_age = map_of [(''sort'', ''age'')]"

definition ex_no_filters :: "string \<Rightarrow> string option" where
  "ex_no_filters = map_of []"

section \<open>Dicts, paths and the store\<close>

lemmas ex_defs = ex_dir_def ex_state_def ex_triaged_def ex_body_skip_def ex_body_true_def
  ex_body_wontfix_def ex_body_close_labels_def ex_body_comment_def ex_body_blank_def
  ex_texts_def ex_loads_def ex_dumps_def ex_gh_ok_def ex_gh_close_fails_def ex_env_def
  ex_env_close_fails_def ex_world_def

lemmas handler_defs = handle_action_def do_close_def do_comment_def do_skip_def
  close_and_record_def run_gh_def gh_outcome_def label_args_def comment_args_def close_args_def
  failure_json_def success_json_def send_error_json_def dict_get_def Let_def

lemmas dash_defs = dashboard_rows_def apply_sort_def apply_filters_def findings_by_num_def
  verdict_of_def confidence_of_def filter_get_def age_key_def confidence_key_def
  confidence_order_def row_verdict_def row_confidence_def Let_def

lemmas ex_dash_defs = ex_issues_def ex_findings_def ex_filter_verdict_pending_def
  ex_filter_confidence_pending_def ex_sort_confidence_def ex_sort_age_def ex_no_filters_def

lemma str_int_102: "str_int 102 = ''102''"
  by (simp add: str_int_def nat_digits.simps)

lemma str_int_101: "str_int 101 = ''101''"
  by (simp add: str_int_def nat_digits.simps)

lemma map_of_dict_set: "map_of (dict_set k v d) = (map_of d)(k \<mapsto> v)"
  by (induction d) auto

lemma keys_dict_set: "fst ` set (dict_set k v d) = insert k (fst ` set d)"
  by (induction d) auto

lemma distinct_dict_set: "distinct (map fst d) \<Longrightarrow> distinct (map fst (dict_set k v d))"
  by (induction d) (auto simp: keys_dict_set)

lemma dict_set_twice: "dict_set k v (dict_set k v' d) = dict_set k v d"
  by (induction d) auto

lemma map_of_None_keys: "(map_of d k = None) = (k \<notin> fst ` set d)"
  by (simp add: map_of_eq_None_iff)

lemma no_entry_for_absent_key:
  "k \<notin> fst ` set d \<Longrightarrow> filter (\<lambda>p. fst p = k) d = []"
  by (induction d) auto

lemma one_entry_per_key:
  "distinct (map fst d) \<Longrightarrow> k \<in> fst ` set d \<Longrightarrow> length (filter (\<lambda>p. fst p = k) d) = 1"
  by (induction d) (auto simp: no_entry_for_absent_key)

lemma with_suffix_state: "with_suffix (state_path env) ''.tmp'' = Inr (state_tmp env)"
  by (simp add: with_suffix_def py_suffix_def rfind_dot_def state_path_def state_tmp_def)

lemma state_tmp_neq: "state_tmp env \<noteq> state_path env"
  by (simp add: state_path_def state_tmp_def)

lemmas state_paths_neq = state_tmp_neq state_tmp_neq[symmetric]

lemma save_json_state:
  "save_json env w (state_path env) data =
     Inr (w\<lparr>fs := (fs w)(state_path env \<mapsto> json_dumps env data, state_tmp env := None)\<rparr>)"
  using state_tmp_neq[of env]
  by (auto simp add: save_json_def with_suffix_state rename_file_def write_text_def fun_upd_twist)

lemma load_json_calls [simp]: "load_json env (w\<lparr>calls := cs\<rparr>) p = load_json env w p"
  by (simp add: load_json_def)

section \<open>Recording a decision\<close>

text \<open>
  With a state document that is a dict whose \<open>triaged\<close> value is a dict (or absent),
  \<open>mark_triaged\<close> returns the new entry and replaces \<open>state.json\<close>.
\<close>

lemma mark_triaged_ok:
  assumes "load_json env w (state_path env) = Inr (JObj st)"
    and "triaged_of st = Some tr"
  shows "mark_triaged env w num action cp note =
           Inr (new_entry env action cp note,
                w\<lparr>fs := (fs w)(state_path env \<mapsto>
                       json_dumps env (JObj (dict_set ''triaged''
                          (JObj (dict_set (py_str num) (JObj (new_entry env action cp note)) tr)) st)),
                     state_tmp env := None)\<rparr>)"
proof (cases "map_of st ''triaged''")
  case None
  then have tr: "tr = []" using assms(2) by (simp add: triaged_of_def)
  from None have notin: "''triaged'' \<notin> fst ` set st" by (simp add: map_of_None_keys)
  show ?thesis
    using assms(1) notin
    by (simp add: mark_triaged_def tr dict_get_def map_of_dict_set save_json_state
        dict_set_twice new_entry_def Let_def)
next
  case (Some v)
  then have v: "v = JObj tr" using assms(2)
    by (simp add: triaged_of_def split: json.splits)
  from Some have isin: "''triaged'' \<in> fst ` set st"
    by (metis map_of_None_keys option.distinct(1))
  show ?thesis
    using assms(1) isin Some v
    by (simp add: mark_triaged_def dict_get_def save_json_state new_entry_def Let_def)
qed

lemma mark_triaged_keeps_calls:
  assumes "mark_triaged env w num action cp note = Inr (entry, w')"
  shows "calls w' = calls w"
  using assms
  by (auto simp: mark_triaged_def save_json_state Let_def split: sum.splits json.splits)

section \<open>The persistent store\<close>

text \<open>
  Claim C4. For a path with a file name and a document \<open>D\<close> that the JSON codec reads
  back as written, \<open>save_json\<close> followed by \<open>load_json\<close> returns \<open>D\<close>; the temporary
  sibling does not exist afterwards and no other file has changed. For a path with no
  file, \<open>load_json\<close> returns the empty mapping.
\<close>

theorem save_load_roundtrip:
  assumes "p \<noteq> []" and "last p \<noteq> []"
    and "json_loads env (json_dumps env D) = Some D"
  shows "\<exists>tmp w'. with_suffix p ''.tmp'' = Inr tmp
           \<and> save_json env w p D = Inr w'
           \<and> load_json env w' p = Inr D
           \<and> (tmp \<noteq> p \<longrightarrow> fs w' tmp = None)
           \<and> (\<forall>q. q \<noteq> p \<and> q \<noteq> tmp \<longrightarrow> fs w' q = fs w q)
           \<and> (\<forall>q. fs w q = None \<longrightarrow> load_json env w q = Inr (JObj []))"
proof -
  from assms(1,2) obtain tmp where t: "with_suffix p ''.tmp'' = Inr tmp"
    by (auto simp: with_suffix_def Let_def)
  show ?thesis
  proof (cases "tmp = p")
    case True
    then show ?thesis
      using t assms(3)
      by (auto simp: save_json_def rename_file_def write_text_def load_json_def)
  next
    case False
    then show ?thesis
      using t assms(3)
      by (auto simp: save_json_def rename_file_def write_text_def load_json_def)
  qed
qed

text \<open>
  The round trip on the example: a copy of the state document is saved next to nothing,
  read back, and \<open>copy.tmp\<close> is gone; the path had no file before.
\<close>

theorem save_load_roundtrip_witness:
  "\<exists>w'. save_json ex_env ex_world [''srv'', ''out'', ''copy.json''] (JObj ex_state) = Inr w'
       \<and> load_json ex_env w' [''srv'', ''out'', ''copy.json''] = Inr (JObj ex_state)
       \<and> fs w' [''srv'', ''out'', ''copy.tmp''] = None
       \<and> fs w' (ex_dir @ [''state.json'']) = Some ''state-0''
       \<and> load_json ex_env ex_world [''srv'', ''out'', ''copy.json''] = Inr (JObj [])"
proof -
  have rt: "json_loads ex_env (json_dumps ex_env (JObj ex_state)) = Some (JObj ex_state)"
    by (simp add: ex_defs)
  have ws: "with_suffix [''srv'', ''out'', ''copy.json''] ''.tmp''
              = Inr [''srv'', ''out'', ''copy.tmp'']"
    by (simp add: with_suffix_def py_suffix_def rfind_dot_def)
  from save_load_roundtrip[of "[''srv'', ''out'', ''copy.json'']" ex_env "JObj ex_state" ex_world,
      OF _ _ rt]
  obtain tmp w' where
    t: "with_suffix [''srv'', ''out'', ''copy.json''] ''.tmp'' = Inr tmp" and
    s: "save_json ex_env ex_world [''srv'', ''out'', ''copy.json''] (JObj ex_state) = Inr w'" and
    l: "load_json ex_env w' [''srv'', ''out'', ''copy.json''] = Inr (JObj ex_state)" and
    n: "tmp \<noteq> [''srv'', ''out'', ''copy.json''] \<longrightarrow> fs w' tmp = None" and
    f: "\<forall>q. q \<noteq> [''srv'', ''out'', ''copy.json''] \<and> q \<noteq> tmp \<longrightarrow> fs w' q = fs ex_world q" and
    m: "\<forall>q. fs ex_world q = None \<longrightarrow> load_json ex_env ex_world q = Inr (JObj [])"
    by auto
  from t ws have tmp: "tmp = [''srv'', ''out'', ''copy.tmp'']" by simp
  from n tmp have 1: "fs w' [''srv'', ''out'', ''copy.tmp''] = None" by simp
  from f tmp have "fs w' (ex_dir @ [''state.json'']) = fs ex_world (ex_dir @ [''state.json''])"
    by (simp add: ex_dir_def)
  then have 2: "fs w' (ex_dir @ [''state.json'']) = Some ''state-0''"
    by (simp add: ex_world_def)
  have "fs ex_world [''srv'', ''out'', ''copy.json''] = None"
    by (simp add: ex_world_def ex_dir_def)
  with m have 3: "load_json ex_env ex_world [''srv'', ''out'', ''copy.json''] = Inr (JObj [])"
    by blast
  from s l 1 2 3 show ?thesis by blast
qed

section \<open>The triage state\<close>

text \<open>
  Claim C3. Recording a decision for an issue leaves exactly one entry under its key in the
  \<open>triaged\<close> mapping (whose keys stay distinct), and that entry is the new one in full,
  whatever was stored before: it has \<open>action\<close> and \<open>at\<close>, \<open>comment_posted\<close> exactly when
  the flag is true, and \<open>note\<close> exactly when the note is not empty.
\<close>

theorem mark_triaged_overwrites:
  assumes "load_json env w (state_path env) = Inr (JObj st)"
    and "triaged_of st = Some tr"
    and "distinct (map fst tr)"
    and "entry = [(''action'', JStr action), (''at'', JStr (now_iso env))]
                 @ (if cp then [(''comment_posted'', JBool True)] else [])
                 @ (if note \<noteq> [] then [(''note'', JStr note)] else [])"
    and "tr' = dict_set (py_str num) (JObj entry) tr"
  shows "mark_triaged env w num action cp (JStr note) =
           Inr (entry, w\<lparr>fs := (fs w)(state_path env \<mapsto>
                               json_dumps env (JObj (dict_set ''triaged'' (JObj tr') st)),
                             state_tmp env := None)\<rparr>)
         \<and> distinct (map fst tr')
         \<and> length (filter (\<lambda>p. fst p = py_str num) tr') = 1
         \<and> map_of tr' (py_str num) = Some (JObj entry)
         \<and> (''comment_posted'' \<in> fst ` set entry) = cp
         \<and> (''note'' \<in> fst ` set entry) = (note \<noteq> [])"
proof -
  have d: "distinct (map fst tr')"
    using assms(3,5) by (simp add: distinct_dict_set)
  have k: "py_str num \<in> fst ` set tr'"
    using assms(5) by (simp add: keys_dict_set)
  have one: "length (filter (\<lambda>p. fst p = py_str num) tr') = 1"
    using d k by (rule one_entry_per_key)
  show ?thesis
    using mark_triaged_ok[OF assms(1,2), of num action cp "JStr note"] d one assms(4,5)
    by (auto simp: new_entry_def map_of_dict_set)
qed

text \<open>
  Issue 101 was skipped with a note; closing it with a comment replaces the entry, and the
  note is gone.
\<close>

theorem mark_triaged_overwrites_witness:
  "mark_triaged ex_env ex_world (PyInt 101) ''closed'' True (JStr []) =
     Inr ([(''action'', JStr ''closed''), (''at'', JStr ''2025-03-01T09:30:00+00:00''),
           (''comment_posted'', JBool True)],
          ex_world\<lparr>fs := (fs ex_world)(state_path ex_env \<mapsto> ''state-1'',
                                        state_tmp ex_env := None)\<rparr>)
   \<and> map_of ex_triaged ''101''
      = Some (JObj [(''action'', JStr ''skipped''), (''at'', JStr ''2025-02-11T10:00:00+00:00''),
                    (''note'', JStr ''later'')])
   \<and> map_of (dict_set ''101'' (JObj [(''action'', JStr ''closed''),
                 (''at'', JStr ''2025-03-01T09:30:00+00:00''), (''comment_posted'', JBool True)])
               ex_triaged) ''101''
      = Some (JObj [(''action'', JStr ''closed''), (''at'', JStr ''2025-03-01T09:30:00+00:00''),
                    (''comment_posted'', JBool True)])"
  using mark_triaged_overwrites[of ex_env ex_world ex_state ex_triaged _ "''closed''" True "[]" _
      "PyInt 101", OF _ _ _ refl refl]
  by (simp add: ex_defs load_json_def state_path_def state_tmp_def triaged_of_def str_int_101)

text \<open>
  Claim C9. The document \<open>mark_triaged\<close> writes differs from the one it loaded only under
  the key \<open>str(number)\<close> of the \<open>triaged\<close> mapping: every other top-level field and every
  other entry is as it was. No file but \<open>state.json\<close> (and its temporary sibling) changes.
\<close>

theorem mark_triaged_frame:
  assumes "load_json env w (state_path env) = Inr (JObj st)"
    and "triaged_of st = Some tr"
    and "mark_triaged env w num action cp note = Inr (entry, w')"
  shows "\<exists>st' tr'. fs w' (state_path env) = Some (json_dumps env (JObj st'))
           \<and> (\<forall>k. k \<noteq> ''triaged'' \<longrightarrow> map_of st' k = map_of st k)
           \<and> map_of st' ''triaged'' = Some (JObj tr')
           \<and> (\<forall>k. k \<noteq> py_str num \<longrightarrow> map_of tr' k = map_of tr k)
           \<and> map_of tr' (py_str num) = Some (JObj entry)
           \<and> (\<forall>q. q \<noteq> state_path env \<and> q \<noteq> state_tmp env \<longrightarrow> fs w' q = fs w q)
           \<and> calls w' = calls w"
proof -
  let ?tr' = "dict_set (py_str num) (JObj entry) tr"
  let ?st' = "dict_set ''triaged'' (JObj ?tr') st"
  from mark_triaged_ok[OF assms(1,2), of num action cp "note"] assms(3)
  have e: "entry = new_entry env action cp note"
    and w': "w' = w\<lparr>fs := (fs w)(state_path env \<mapsto> json_dumps env (JObj ?st'),
                             state_tmp env := None)\<rparr>"
    by simp_all
  have "fs w' (state_path env) = Some (json_dumps env (JObj ?st'))"
    by (simp add: w' state_paths_neq)
  moreover have "\<forall>k. k \<noteq> ''triaged'' \<longrightarrow> map_of ?st' k = map_of st k"
    by (simp add: map_of_dict_set)
  moreover have "map_of ?st' ''triaged'' = Some (JObj ?tr')"
    by (simp add: map_of_dict_set)
  moreover have "\<forall>k. k \<noteq> py_str num \<longrightarrow> map_of ?tr' k = map_of tr k"
    by (simp add: map_of_dict_set)
  moreover have "map_of ?tr' (py_str num) = Some (JObj entry)"
    by (simp add: map_of_dict_set)
  moreover have "\<forall>q. q \<noteq> state_path env \<and> q \<noteq> state_tmp env \<longrightarrow> fs w' q = fs w q"
    by (simp add: w')
  moreover have "calls w' = calls w"
    by (simp add: w')
  ultimately show ?thesis by blast
qed

text \<open>
  Skipping issue 102 in the example state: \<open>repo\<close> and the entries of 101 and 7 are
  untouched, and 102 has its new entry.
\<close>

theorem mark_triaged_frame_witness:
  "\<exists>st' tr'. fs (snd (projr (mark_triaged ex_env ex_world (PyInt 102) ''skipped'' False
                                 (JStr ''later''))))
                 (state_path ex_env) = Some (json_dumps ex_env (JObj st'))
      \<and> map_of st' ''repo'' = Some (JStr ''owner/repo'')
      \<and> map_of st' ''triaged'' = Some (JObj tr')
      \<and> map_of tr' ''101'' = map_of ex_triaged ''101''
      \<and> map_of tr' ''7'' = map_of ex_triaged ''7''
      \<and> map_of tr' ''102'' = Some (JObj [(''action'', JStr ''skipped''),
              (''at'', JStr ''2025-03-01T09:30:00+00:00''), (''note'', JStr ''later'')])"
proof -
  let ?e = "[(''action'', JStr ''skipped''), (''at'', JStr ''2025-03-01T09:30:00+00:00''),
             (''note'', JStr ''later'')]"
  let ?w' = "ex_world\<lparr>fs := (fs ex_world)(state_path ex_env \<mapsto> ''state-1'',
                                           state_tmp ex_env := None)\<rparr>"
  have l: "load_json ex_env ex_world (state_path ex_env) = Inr (JObj ex_state)"
    by (simp add: ex_defs load_json_def state_path_def)
  have t: "triaged_of ex_state = Some ex_triaged"
    by (simp add: ex_defs triaged_of_def)
  have m: "mark_triaged ex_env ex_world (PyInt 102) ''skipped'' False (JStr ''later'')
             = Inr (?e, ?w')"
    using mark_triaged_ok[OF l t, of "PyInt 102" "''skipped''" False "JStr ''later''"]
    by (simp add: new_entry_def) (simp add: ex_defs)
  from mark_triaged_frame[OF l t m] obtain st' tr' where
    "fs ?w' (state_path ex_env) = Some (json_dumps ex_env (JObj st'))"
    "\<forall>k. k \<noteq> ''triaged'' \<longrightarrow> map_of st' k = map_of ex_state k"
    "map_of st' ''triaged'' = Some (JObj tr')"
    "\<forall>k. k \<noteq> py_str (PyInt 102) \<longrightarrow> map_of tr' k = map_of ex_triaged k"
    "map_of tr' (py_str (PyInt 102)) = Some (JObj ?e)"
    by blast
  then have "fs ?w' (state_path ex_env) = Some (json_dumps ex_env (JObj st'))
      \<and> map_of st' ''repo'' = Some (JStr ''owner/repo'')
      \<and> map_of st' ''triaged'' = Some (JObj tr')
      \<and> map_of tr' ''101'' = map_of ex_triaged ''101''
      \<and> map_of tr' ''7'' = map_of ex_triaged ''7''
      \<and> map_of tr' ''102'' = Some (JObj ?e)"
    by (simp add: str_int_102 ex_state_def)
  then show ?thesis unfolding m by auto
qed

section \<open>Input validation and the skip action\<close>

text \<open>
  Claim C8. A skip request with a valid number, on a well-formed state, succeeds without
  running the external tool: \<open>mark_triaged\<close> is applied once, to the world as it was, with
  action \<open>skipped\<close> and the request's \<open>comment\<close> field as the note, and the response is
  \<open>{ok: true, action: "skipped", entry}\<close> with the entry written.
\<close>

theorem skip_records_once:
  assumes "json_loads env raw = Some (JObj body)"
    and "as_pyint (dict_get body ''number'' JNull) = Some num"
    and "0 < int_value num"
    and "dict_get body ''action'' JNull = JStr ''skip''"
    and "load_json env w (state_path env) = Inr (JObj st)"
    and "triaged_of st = Some tr"
    and "note = dict_get body ''comment'' (JStr [])"
    and "entry = [(''action'', JStr ''skipped''), (''at'', JStr (now_iso env))]
                 @ (if py_truthy note then [(''note'', note)] else [])"
    and "w' = snd (handle_action env w raw)"
  shows "fst (handle_action env w raw) =
           Resp 200 (JObj [(''ok'', JBool True), (''action'', JStr ''skipped''),
                           (''entry'', JObj entry)])
         \<and> calls w' = calls w
         \<and> mark_triaged env w num ''skipped'' False note = Inr (entry, w')
         \<and> fs w' (state_path env) = Some (json_dumps env (JObj (dict_set ''triaged''
                        (JObj (dict_set (py_str num) (JObj entry) tr)) st)))"
  using assms mark_triaged_ok[OF assms(5,6), of num "''skipped''" False "note"]
  by (simp add: handle_action_def do_skip_def success_json_def new_entry_def state_paths_neq)

text \<open>The test suite's skip request, with a note.\<close>

theorem skip_records_once_witness:
  "fst (handle_action ex_env ex_world ''req-skip'') =
     Resp 200 (JObj [(''ok'', JBool True), (''action'', JStr ''skipped''),
       (''entry'', JObj [(''action'', JStr ''skipped''),
                         (''at'', JStr ''2025-03-01T09:30:00+00:00''),
                         (''note'', JStr ''not now'')])])
   \<and> calls (snd (handle_action ex_env ex_world ''req-skip'')) = []
   \<and> fs (snd (handle_action ex_env ex_world ''req-skip'')) (ex_dir @ [''state.json''])
       = Some ''state-1''"
  using skip_records_once[of ex_env "''req-skip''" ex_body_skip "PyInt 102" ex_world ex_state
      ex_triaged, OF _ _ _ _ _ _ refl refl refl]
  by (simp add: ex_defs load_json_def state_path_def state_tmp_def triaged_of_def dict_get_def)

text \<open>
  Claim C10. A request whose \<open>number\<close> is the JSON value \<open>true\<close> passes the number check:
  a skip action answers 200 and records its entry under the key \<open>True\<close>.
\<close>

theorem bool_number_recorded_under_True:
  assumes "json_loads env raw = Some (JObj body)"
    and "map_of body ''number'' = Some (JBool True)"
    and "map_of body ''action'' = Some (JStr ''skip'')"
    and "load_json env w (state_path env) = Inr (JObj st)"
    and "triaged_of st = Some tr"
    and "note = dict_get body ''comment'' (JStr [])"
    and "entry = [(''action'', JStr ''skipped''), (''at'', JStr (now_iso env))]
                 @ (if py_truthy note then [(''note'', note)] else [])"
  shows "handle_action env w raw =
           (Resp 200 (JObj [(''ok'', JBool True), (''action'', JStr ''skipped''),
                            (''entry'', JObj entry)]),
            w\<lparr>fs := (fs w)(state_path env \<mapsto> json_dumps env (JObj (dict_set ''triaged''
                        (JObj (dict_set ''True'' (JObj entry) tr)) st)),
                      state_tmp env := None)\<rparr>)"
  using assms mark_triaged_ok[OF assms(4,5), of "PyBool True" "''skipped''" False "note"]
  by (simp add: handle_action_def dict_get_def do_skip_def success_json_def new_entry_def)

text \<open>The request \<open>{"number": true, "action": "skip"}\<close> on the example state.\<close>

theorem bool_number_recorded_under_True_witness:
  "fst (handle_action ex_env ex_world ''req-true'') =
     Resp 200 (JObj [(''ok'', JBool True), (''action'', JStr ''skipped''),
       (''entry'', JObj [(''action'', JStr ''skipped''),
                         (''at'', JStr ''2025-03-01T09:30:00+00:00'')])])
   \<and> fs (snd (handle_action ex_env ex_world ''req-true'')) (ex_dir @ [''state.json''])
       = Some (ex_dumps (JObj (dict_set ''triaged''
            (JObj (dict_set ''True'' (JObj [(''action'', JStr ''skipped''),
                         (''at'', JStr ''2025-03-01T09:30:00+00:00'')]) ex_triaged)) ex_state)))
   \<and> fs (snd (handle_action ex_env ex_world ''req-true'')) (ex_dir @ [''state.tmp'']) = None"
  using bool_number_recorded_under_True[of ex_env "''req-true''" ex_body_true ex_world ex_state
      ex_triaged, OF _ _ _ _ _ refl refl]
  by (simp add: ex_env_def ex_loads_def ex_texts_def ex_body_true_def ex_world_def ex_dir_def
      ex_state_def load_json_def state_path_def state_tmp_def triaged_of_def dict_get_def)

section \<open>Runs of the external tool\<close>

lemma gh_outcome_ok: "fst (gh_outcome r) = (r = Exited0)"
  by (simp add: gh_outcome_def split: proc_result.splits)

lemma all_succeeded_Nil [simp]: "all_succeeded []"
  by (simp add: all_succeeded_def)

lemma all_succeeded_Cons [simp]:
  "all_succeeded ((a, r) # cs) = (r = Exited0 \<and> all_succeeded cs)"
  by (simp add: all_succeeded_def)

lemma all_succeeded_append [simp]:
  "all_succeeded (cs @ ds) = (all_succeeded cs \<and> all_succeeded ds)"
  by (simp add: all_succeeded_def)

lemma stopped_single [simp]: "stopped_at_first_failure [(a, r)] = (r \<noteq> Exited0)"
  by (simp add: stopped_at_first_failure_def)

lemma stopped_Cons:
  "stopped_at_first_failure cs \<Longrightarrow> stopped_at_first_failure ((a, Exited0) # cs)"
  by (simp add: stopped_at_first_failure_def)

lemma stopped_append:
  "all_succeeded cs \<Longrightarrow> stopped_at_first_failure ds \<Longrightarrow> stopped_at_first_failure (cs @ ds)"
  by (simp add: stopped_at_first_failure_def butlast_append)

text \<open>
  The label loop either runs to its end (or into an argument that is not a string) with
  every run successful, or returns the 502 response at its first failed run. It writes
  nothing.
\<close>

lemma add_labels_trace:
  "add_labels env num ls w = (res, w') \<Longrightarrow>
     fs w' = fs w \<and>
     (\<exists>new. calls w' = calls w @ new \<and>
        ((all_succeeded new \<and> (res = None \<or> res = Some (Crash TypeError)))
         \<or> (stopped_at_first_failure new \<and> (\<exists>msg. res = Some (failure_json msg)))))"
proof (induction ls arbitrary: w)
  case Nil
  then show ?case by auto
next
  case (Cons l ls)
  show ?case
  proof (cases l)
    case (JStr label)
    let ?args = "label_args env num label"
    let ?r = "gh env (calls w) ?args"
    let ?w1 = "w\<lparr>calls := calls w @ [(?args, ?r)]\<rparr>"
    show ?thesis
    proof (cases "?r = Exited0")
      case True
      then have rec: "add_labels env num ls ?w1 = (res, w')"
        using Cons.prems JStr by (simp add: run_gh_def Let_def gh_outcome_def)
      from Cons.IH[OF rec] obtain new where
        f: "fs w' = fs w" and c: "calls w' = calls ?w1 @ new" and
        r: "(all_succeeded new \<and> (res = None \<or> res = Some (Crash TypeError)))
         \<or> (stopped_at_first_failure new \<and> (\<exists>msg. res = Some (failure_json msg)))"
        by auto
      have c': "calls w' = calls w @ ((?args, Exited0) # new)"
        using c True by simp
      have "(all_succeeded ((?args, Exited0) # new)
              \<and> (res = None \<or> res = Some (Crash TypeError)))
         \<or> (stopped_at_first_failure ((?args, Exited0) # new)
              \<and> (\<exists>msg. res = Some (failure_json msg)))"
        using r by (auto intro: stopped_Cons)
      with f c' show ?thesis by blast
    next
      case False
      then have "\<not> fst (gh_outcome ?r)" by (simp add: gh_outcome_ok)
      then have "\<exists>msg. res = Some (failure_json msg)" and "w' = ?w1"
        using Cons.prems JStr
        by (auto simp: run_gh_def Let_def split: prod.splits if_splits)
      then show ?thesis using False by auto
    qed
  qed (use Cons.prems in auto)
qed

text \<open>With labels that are all strings, the loop's runs are the label calls in order.\<close>

lemma add_labels_strings:
  "add_labels env num (map JStr ls) w = (res, w') \<Longrightarrow>
     (res = None \<and> w' = w\<lparr>calls := calls w @ map (\<lambda>l. (label_args env num l, Exited0)) ls\<rparr>)
     \<or> (\<exists>msg. res = Some (failure_json msg))"
proof (induction ls arbitrary: w)
  case Nil
  then show ?case by simp
next
  case (Cons l ls)
  let ?args = "label_args env num l"
  let ?r = "gh env (calls w) ?args"
  let ?w1 = "w\<lparr>calls := calls w @ [(?args, ?r)]\<rparr>"
  show ?case
  proof (cases "?r = Exited0")
    case True
    then have "add_labels env num (map JStr ls) ?w1 = (res, w')"
      using Cons.prems by (simp add: run_gh_def Let_def gh_outcome_def)
    from Cons.IH[OF this] show ?thesis using True by auto
  next
    case False
    then have "\<not> fst (gh_outcome ?r)" by (simp add: gh_outcome_ok)
    then have "\<exists>msg. res = Some (failure_json msg)"
      using Cons.prems by (auto simp: run_gh_def Let_def split: prod.splits)
    then show ?thesis by simp
  qed
qed

lemma close_and_record_trace:
  assumes "close_and_record env w num c reason = (out, w')"
  shows "\<exists>new. calls w' = calls w @ new \<and>
           (all_succeeded new
            \<or> (stopped_at_first_failure new \<and> fs w' = fs w \<and> (\<exists>msg. out = failure_json msg)))"
proof -
  let ?args = "close_args env num reason"
  let ?r = "gh env (calls w) ?args"
  let ?w1 = "w\<lparr>calls := calls w @ [(?args, ?r)]\<rparr>"
  show ?thesis
  proof (cases "?r = Exited0")
    case True
    then have ok: "fst (gh_outcome ?r)" by (simp add: gh_outcome_ok)
    have "calls w' = calls w @ [(?args, Exited0)]"
    proof (cases "mark_triaged env ?w1 num ''closed'' (py_strip c \<noteq> []) (JStr [])")
      case (Inl e)
      then show ?thesis
        using assms ok True
        by (auto simp: close_and_record_def run_gh_def Let_def split: prod.splits)
    next
      case (Inr ew)
      then obtain entry w2 where ew: "ew = (entry, w2)" by (cases ew)
      with Inr have "calls w2 = calls ?w1" by (auto dest: mark_triaged_keeps_calls)
      then show ?thesis
        using assms ok True Inr ew
        by (auto simp: close_and_record_def run_gh_def Let_def split: prod.splits)
    qed
    then show ?thesis by auto
  next
    case False
    then have "\<not> fst (gh_outcome ?r)" by (simp add: gh_outcome_ok)
    then have "\<exists>msg. out = failure_json msg" and "w' = ?w1"
      using assms
      by (auto simp: close_and_record_def run_gh_def Let_def split: prod.splits)
    then show ?thesis using False by auto
  qed
qed

lemma close_and_record_success:
  assumes "close_and_record env w num c reason = (Resp 200 payload, w')"
  shows "gh env (calls w) (close_args env num reason) = Exited0
         \<and> (\<exists>entry. mark_triaged env (w\<lparr>calls := calls w @ [(close_args env num reason, Exited0)]\<rparr>)
                        num ''closed'' (py_strip c \<noteq> []) (JStr []) = Inr (entry, w')
                \<and> payload = JObj [(''ok'', JBool True), (''action'', JStr ''closed''),
                                   (''entry'', JObj entry)])"
proof -
  let ?r = "gh env (calls w) (close_args env num reason)"
  have ok: "?r = Exited0"
  proof (rule ccontr)
    assume "?r \<noteq> Exited0"
    then have "\<not> fst (gh_outcome ?r)" by (simp add: gh_outcome_ok)
    then show False using assms
      by (auto simp: close_and_record_def run_gh_def Let_def failure_json_def split: prod.splits)
  qed
  then show ?thesis using assms
    by (auto simp: close_and_record_def run_gh_def Let_def gh_outcome_def success_json_def
        split: sum.splits)
qed

lemma do_close_trace:
  assumes "do_close env w num comment reason labels = (out, w')"
  shows "\<exists>new. calls w' = calls w @ new \<and>
           (all_succeeded new
            \<or> (stopped_at_first_failure new \<and> fs w' = fs w \<and> (\<exists>msg. out = failure_json msg)))"
proof (cases "iter_or_empty labels")
  case (Inl e)
  then have "w' = w" using assms by (simp add: do_close_def)
  then show ?thesis by auto
next
  case (Inr ls)
  obtain res w1 where al: "add_labels env num ls w = (res, w1)"
    by (cases "add_labels env num ls w")
  from add_labels_trace[OF al] obtain new1 where
    f1: "fs w1 = fs w" and c1: "calls w1 = calls w @ new1" and
    r1: "(all_succeeded new1 \<and> (res = None \<or> res = Some (Crash TypeError)))
         \<or> (stopped_at_first_failure new1 \<and> (\<exists>msg. res = Some (failure_json msg)))"
    by auto
  show ?thesis
  proof (cases res)
    case (Some o1)
    then have "out = o1" and "w' = w1"
      using assms Inr al by (simp_all add: do_close_def)
    then show ?thesis using f1 c1 r1 Some by auto
  next
    case None
    then have a1: "all_succeeded new1" using r1 by auto
    show ?thesis
    proof (cases comment)
      case (JStr c)
      show ?thesis
      proof (cases "py_strip c \<noteq> []")
        case False
        then have "close_and_record env w1 num c reason = (out, w')"
          using assms Inr al None JStr by (simp add: do_close_def)
        from close_and_record_trace[OF this] obtain new2 where
          "calls w' = calls w1 @ new2" and
          "all_succeeded new2
            \<or> (stopped_at_first_failure new2 \<and> fs w' = fs w1 \<and> (\<exists>msg. out = failure_json msg))"
          by auto
        then have "calls w' = calls w @ (new1 @ new2) \<and>
           (all_succeeded (new1 @ new2)
            \<or> (stopped_at_first_failure (new1 @ new2) \<and> fs w' = fs w
                \<and> (\<exists>msg. out = failure_json msg)))"
          using a1 c1 f1 by (auto intro: stopped_append)
        then show ?thesis by blast
      next
        case True
        let ?args = "comment_args env num"
        let ?r = "gh env (calls w1) ?args"
        let ?w2 = "w1\<lparr>calls := calls w1 @ [(?args, ?r)]\<rparr>"
        show ?thesis
        proof (cases "?r = Exited0")
          case ok: True
          then have "fst (gh_outcome ?r)" by (simp add: gh_outcome_ok)
          then have "close_and_record env ?w2 num c reason = (out, w')"
            using assms Inr al None JStr True
            by (auto simp: do_close_def run_gh_def Let_def split: prod.splits)
          from close_and_record_trace[OF this] obtain new2 where
            "calls w' = calls ?w2 @ new2" and
            "all_succeeded new2
              \<or> (stopped_at_first_failure new2 \<and> fs w' = fs ?w2
                  \<and> (\<exists>msg. out = failure_json msg))"
            by auto
          then have "calls w' = calls w @ ((new1 @ [(?args, Exited0)]) @ new2) \<and>
             (all_succeeded ((new1 @ [(?args, Exited0)]) @ new2)
              \<or> (stopped_at_first_failure ((new1 @ [(?args, Exited0)]) @ new2) \<and> fs w' = fs w
                  \<and> (\<exists>msg. out = failure_json msg)))"
            using a1 c1 f1 ok by (auto intro!: stopped_append stopped_Cons)
          then show ?thesis by blast
        next
          case bad: False
          then have "\<not> fst (gh_outcome ?r)" by (simp add: gh_outcome_ok)
          then have "\<exists>msg. out = failure_json msg" and "w' = ?w2"
            using assms Inr al None JStr True
            by (auto simp: do_close_def run_gh_def Let_def split: prod.splits)
          then have "calls w' = calls w @ (new1 @ [(?args, ?r)]) \<and>
              stopped_at_first_failure (new1 @ [(?args, ?r)]) \<and> fs w' = fs w
                  \<and> (\<exists>msg. out = failure_json msg)"
            using a1 c1 f1 bad by (auto intro!: stopped_append)
          then show ?thesis by blast
        qed
      qed
    qed (use assms Inr al None a1 c1 in \<open>auto simp: do_close_def\<close>)
  qed
qed

text \<open>The example requests, run.\<close>

lemma ex_close_fails_run:
  "handle_action ex_env_close_fails ex_world ''req-wontfix'' =
     (Resp 502 (JObj [(''ok'', JBool False),
                      (''error'', JStr ''Failed to close issue: issue not found'')]),
      ex_world\<lparr>calls :=
        [([''gh'', ''issue'', ''edit'', ''102'', ''--repo'', ''owner/repo'',
           ''--add-label'', ''wontfix''], Exited0),
         ([''gh'', ''issue'', ''edit'', ''102'', ''--repo'', ''owner/repo'',
           ''--add-label'', ''stale''], Exited0),
         ([''gh'', ''issue'', ''comment'', ''102'', ''--repo'', ''owner/repo'',
           ''--body-file'', ''/tmp/tmpk3v9.md''], Exited0),
         ([''gh'', ''issue'', ''close'', ''102'', ''--repo'', ''owner/repo'',
           ''--reason'', ''not planned''],
          CalledProcessError '' issue not found  ''
            ''Command returned non-zero exit status 1.'')]\<rparr>)"
  by (simp add: handler_defs ex_defs str_int_102 py_strip_def is_space_def)

lemmas store_defs = mark_triaged_def load_json_def save_json_def with_suffix_def py_suffix_def
  rfind_dot_def rename_file_def write_text_def state_path_def

lemma ex_wontfix_run:
  "fst (handle_action ex_env ex_world ''req-wontfix'') =
     Resp 200 (JObj [(''ok'', JBool True), (''action'', JStr ''closed''),
        (''entry'', JObj [(''action'', JStr ''closed''),
                          (''at'', JStr ''2025-03-01T09:30:00+00:00''),
                          (''comment_posted'', JBool True)])])"
  by (simp add: handler_defs store_defs ex_defs str_int_102 py_strip_def is_space_def)

section \<open>The action executor\<close>

text \<open>
  Claim C1. When a run of the external tool fails during a close or close_wontfix request,
  that failed run is the last one (every run before it succeeded and none follows), the
  response is \<open>{ok: false, error: message}\<close> with status 502, and the file system, hence
  \<open>state.json\<close>, is as it was.
\<close>

theorem close_stops_at_first_failure:
  assumes "json_loads env raw = Some (JObj body)"
    and "dict_get body ''action'' JNull = JStr ''close''
         \<or> dict_get body ''action'' JNull = JStr ''close_wontfix''"
    and "handle_action env w raw = (out, w')"
    and "new = drop (length (calls w)) (calls w')"
    and "\<not> all_succeeded new"
  shows "calls w' = calls w @ new
         \<and> stopped_at_first_failure new
         \<and> (\<exists>msg. out = Resp 502 (JObj [(''ok'', JBool False), (''error'', JStr msg)]))
         \<and> fs w' = fs w"
proof -
  have "\<exists>new. calls w' = calls w @ new \<and>
           (all_succeeded new
            \<or> (stopped_at_first_failure new \<and> fs w' = fs w \<and> (\<exists>msg. out = failure_json msg)))"
  proof (cases "as_pyint (dict_get body ''number'' JNull)")
    case None
    then have "w' = w" using assms(1,3) by (simp add: handle_action_def Let_def)
    then show ?thesis by auto
  next
    case (Some num)
    show ?thesis
    proof (cases "int_value num \<le> 0")
      case True
      then have "w' = w" using assms(1,3) Some by (simp add: handle_action_def Let_def)
      then show ?thesis by auto
    next
      case False
      from assms(2) show ?thesis
      proof
        assume a: "dict_get body ''action'' JNull = JStr ''close''"
        then have "do_close env w num (dict_get body ''comment'' (JStr [])) ''completed''
                     (dict_get body ''labels'' (JArr [])) = (out, w')"
          using assms(1,3) Some False by (simp add: handle_action_def Let_def)
        then show ?thesis by (rule do_close_trace)
      next
        assume a: "dict_get body ''action'' JNull = JStr ''close_wontfix''"
        show ?thesis
        proof (cases "dict_get body ''labels'' (JArr [])")
          case (JArr ls)
          then have "do_close env w num (dict_get body ''comment'' (JStr [])) ''not planned''
                     (JArr (JStr ''wontfix'' # ls)) = (out, w')"
            using assms(1,3) Some False a by (simp add: handle_action_def Let_def)
          then show ?thesis by (rule do_close_trace)
        qed (use assms(1,3) Some False a in \<open>auto simp: handle_action_def Let_def\<close>)
      qed
    qed
  qed
  then obtain new0 where c: "calls w' = calls w @ new0" and
    d: "all_succeeded new0
        \<or> (stopped_at_first_failure new0 \<and> fs w' = fs w \<and> (\<exists>msg. out = failure_json msg))"
    by auto
  from c assms(4) have "new = new0" by simp
  with c d assms(5) show ?thesis by (auto simp: failure_json_def)
qed

text \<open>
  A close_wontfix request whose close call fails: two label calls and the comment call
  succeeded, the fourth run is the last, the answer is 502 and nothing was written.
\<close>

theorem close_stops_at_first_failure_witness:
  "fst (handle_action ex_env_close_fails ex_world ''req-wontfix'') =
     Resp 502 (JObj [(''ok'', JBool False),
                     (''error'', JStr ''Failed to close issue: issue not found'')])
   \<and> length (calls (snd (handle_action ex_env_close_fails ex_world ''req-wontfix''))) = 4
   \<and> stopped_at_first_failure
        (calls (snd (handle_action ex_env_close_fails ex_world ''req-wontfix'')))
   \<and> fs (snd (handle_action ex_env_close_fails ex_world ''req-wontfix'')) = fs ex_world"
proof -
  let ?res = "handle_action ex_env_close_fails ex_world ''req-wontfix''"
  have l: "json_loads ex_env_close_fails ''req-wontfix'' = Some (JObj ex_body_wontfix)"
    by (simp add: ex_defs)
  have a: "dict_get ex_body_wontfix ''action'' JNull = JStr ''close''
         \<or> dict_get ex_body_wontfix ''action'' JNull = JStr ''close_wontfix''"
    by (simp add: ex_defs dict_get_def)
  have n: "\<not> all_succeeded (drop (length (calls ex_world)) (calls (snd ?res)))"
    by (simp add: ex_close_fails_run) (simp add: ex_world_def)
  have "calls (snd ?res) = calls ex_world @ drop (length (calls ex_world)) (calls (snd ?res))
         \<and> stopped_at_first_failure (drop (length (calls ex_world)) (calls (snd ?res)))
         \<and> (\<exists>msg. fst ?res = Resp 502 (JObj [(''ok'', JBool False), (''error'', JStr msg)]))
         \<and> fs (snd ?res) = fs ex_world"
    using close_stops_at_first_failure[where out = "fst ?res", OF l a _ refl n] by simp
  then show ?thesis
    by (simp add: ex_close_fails_run) (simp add: ex_world_def)
qed

text \<open>
  Claim C5. A comment request whose text is empty or only whitespace is answered 400 with
  the message \<open>Comment cannot be empty\<close>, and the world is untouched. Otherwise exactly
  one run of the tool is made, \<open>gh issue comment ... --body-file <temporary file>\<close>; when it
  succeeds, \<open>mark_triaged\<close> is applied once with action \<open>commented\<close> and
  \<open>comment_posted\<close> true and the response is \<open>{ok: true, action: "commented", entry}\<close>;
  when it fails the response is 502 and nothing is written.
\<close>

theorem comment_action:
  assumes "json_loads env raw = Some (JObj body)"
    and "as_pyint (dict_get body ''number'' JNull) = Some num"
    and "0 < int_value num"
    and "dict_get body ''action'' JNull = JStr ''comment''"
    and "dict_get body ''comment'' (JStr []) = JStr c"
    and "load_json env w (state_path env) = Inr (JObj st)"
    and "triaged_of st = Some tr"
    and "post = [''gh'', ''issue'', ''comment'', py_str num, ''--repo'', repo env,
                 ''--body-file'', tmppath env]"
    and "r = gh env (calls w) post"
    and "entry = [(''action'', JStr ''commented''), (''at'', JStr (now_iso env)),
                  (''comment_posted'', JBool True)]"
    and "res = handle_action env w raw"
  shows "if py_strip c = []
         then res = (Resp 400 (JObj [(''error'', JStr ''Comment cannot be empty'')]), w)
              \<and> sublist ''empty'' ''Comment cannot be empty''
         else calls (snd res) = calls w @ [(post, r)]
              \<and> (if r = Exited0
                  then fst res = Resp 200 (JObj [(''ok'', JBool True),
                                     (''action'', JStr ''commented''), (''entry'', JObj entry)])
                       \<and> mark_triaged env (w\<lparr>calls := calls w @ [(post, r)]\<rparr>) num
                            ''commented'' True (JStr []) = Inr (entry, snd res)
                  else (\<exists>msg. fst res = Resp 502 (JObj [(''ok'', JBool False),
                                                         (''error'', JStr msg)]))
                       \<and> fs (snd res) = fs w)"
proof (cases "py_strip c = []")
  case True
  have "sublist ''empty'' ''Comment cannot be empty''" by code_simp
  moreover have "res = (Resp 400 (JObj [(''error'', JStr ''Comment cannot be empty'')]), w)"
    using assms(1-5,11) True
    by (simp add: handle_action_def do_comment_def send_error_json_def Let_def)
  ultimately show ?thesis using True by simp
next
  case False
  let ?w1 = "w\<lparr>calls := calls w @ [(post, r)]\<rparr>"
  have dc: "res = do_comment env w num (JStr c)"
    using assms(1-5,11) by (simp add: handle_action_def Let_def)
  show ?thesis
  proof (cases "r = Exited0")
    case True
    have l1: "load_json env ?w1 (state_path env) = Inr (JObj st)"
      using assms(6) by simp
    have m: "mark_triaged env ?w1 num ''commented'' True (JStr []) =
               Inr (entry, ?w1\<lparr>fs := (fs ?w1)(state_path env \<mapsto>
                       json_dumps env (JObj (dict_set ''triaged''
                          (JObj (dict_set (py_str num) (JObj entry) tr)) st)),
                     state_tmp env := None)\<rparr>)"
      using mark_triaged_ok[OF l1 assms(7), of num "''commented''" True "JStr []"] assms(10)
      by (simp add: new_entry_def)
    have "res = (Resp 200 (JObj [(''ok'', JBool True), (''action'', JStr ''commented''),
                                 (''entry'', JObj entry)]),
                 ?w1\<lparr>fs := (fs ?w1)(state_path env \<mapsto>
                       json_dumps env (JObj (dict_set ''triaged''
                          (JObj (dict_set (py_str num) (JObj entry) tr)) st)),
                     state_tmp env := None)\<rparr>)"
      using dc False True assms(8,9) m
      by (simp add: do_comment_def run_gh_def gh_outcome_def comment_args_def success_json_def
          Let_def)
    then show ?thesis using False True m by simp
  next
    case bad: False
    then have "\<not> fst (gh_outcome r)" by (simp add: gh_outcome_ok)
    then have "res = (failure_json (''Failed to post comment: '' @ snd (gh_outcome r)), ?w1)"
      using dc False assms(8,9)
      by (simp add: do_comment_def run_gh_def comment_args_def Let_def split: prod.splits)
    then show ?thesis using False bad by (simp add: failure_json_def)
  qed
qed

text \<open>The test suite's two comment requests: \<open>Nice work!\<close> and a blank comment.\<close>

theorem comment_action_witness:
  "calls (snd (handle_action ex_env ex_world ''req-comment'')) =
     [([''gh'', ''issue'', ''comment'', ''102'', ''--repo'', ''owner/repo'',
        ''--body-file'', ''/tmp/tmpk3v9.md''], Exited0)]
   \<and> fst (handle_action ex_env ex_world ''req-comment'') =
       Resp 200 (JObj [(''ok'', JBool True), (''action'', JStr ''commented''),
         (''entry'', JObj [(''action'', JStr ''commented''),
                           (''at'', JStr ''2025-03-01T09:30:00+00:00''),
                           (''comment_posted'', JBool True)])])
   \<and> handle_action ex_env ex_world ''req-blank'' =
       (Resp 400 (JObj [(''error'', JStr ''Comment cannot be empty'')]), ex_world)"
proof -
  have s1: "py_strip ''Nice work!'' \<noteq> []" by (simp add: py_strip_def is_space_def)
  have s2: "py_strip ''  '' = []" by (simp add: py_strip_def is_space_def)
  have g: "gh ex_env (calls ex_world)
             [''gh'', ''issue'', ''comment'', py_str (PyInt 102), ''--repo'', repo ex_env,
              ''--body-file'', tmppath ex_env] = Exited0"
    by (simp add: ex_env_def ex_gh_ok_def)
  have l: "load_json ex_env ex_world (state_path ex_env) = Inr (JObj ex_state)"
    by (simp add: ex_defs load_json_def state_path_def)
  have t: "triaged_of ex_state = Some ex_triaged"
    by (simp add: ex_defs triaged_of_def)
  have a: "calls (snd (handle_action ex_env ex_world ''req-comment'')) =
             calls ex_world @ [([''gh'', ''issue'', ''comment'', py_str (PyInt 102), ''--repo'',
                                 repo ex_env, ''--body-file'', tmppath ex_env], Exited0)]
           \<and> fst (handle_action ex_env ex_world ''req-comment'') =
               Resp 200 (JObj [(''ok'', JBool True), (''action'', JStr ''commented''),
                 (''entry'', JObj [(''action'', JStr ''commented''),
                                   (''at'', JStr (now_iso ex_env)),
                                   (''comment_posted'', JBool True)])])"
    using comment_action[of ex_env "''req-comment''" ex_body_comment "PyInt 102"
        "''Nice work!''" ex_world ex_state ex_triaged, OF _ _ _ _ _ l t refl refl refl refl] s1 g
    by (simp add: ex_env_def ex_loads_def ex_texts_def ex_body_comment_def dict_get_def)
  have b: "handle_action ex_env ex_world ''req-blank'' =
       (Resp 400 (JObj [(''error'', JStr ''Comment cannot be empty'')]), ex_world)"
    using comment_action[of ex_env "''req-blank''" ex_body_blank "PyInt 102"
        "''  ''" ex_world ex_state ex_triaged, OF _ _ _ _ _ l t refl refl refl refl] s2
    by (simp add: ex_env_def ex_loads_def ex_texts_def ex_body_blank_def dict_get_def)
  from a b show ?thesis
    by (simp add: str_int_102 ex_env_def ex_world_def)
qed

text \<open>
  Claim C2, as the code has it. A successful close or close_wontfix request runs, in this
  order: one label call per label (for close_wontfix \<open>wontfix\<close> first, then the requested
  labels; for close the requested labels), then the comment call when the comment is not
  blank, then the close call with reason \<open>not planned\<close> (close_wontfix) or \<open>completed\<close>
  (close); every run succeeded, and \<open>mark_triaged\<close> is then applied once.
\<close>

theorem close_call_order:
  assumes "json_loads env raw = Some (JObj body)"
    and "as_pyint (dict_get body ''number'' JNull) = Some num"
    and "0 < int_value num"
    and "dict_get body ''action'' JNull = JStr a"
    and "a = ''close'' \<or> a = ''close_wontfix''"
    and "dict_get body ''comment'' (JStr []) = JStr c"
    and "dict_get body ''labels'' (JArr []) = JArr (map JStr ls)"
    and "handle_action env w raw = (Resp 200 payload, w')"
    and "sent = (if a = ''close_wontfix'' then ''wontfix'' # ls else ls)"
    and "reason = (if a = ''close_wontfix'' then ''not planned'' else ''completed'')"
    and "expected =
           map (\<lambda>l. ([''gh'', ''issue'', ''edit'', py_str num, ''--repo'', repo env,
                       ''--add-label'', l], Exited0)) sent
           @ (if py_strip c \<noteq> []
              then [([''gh'', ''issue'', ''comment'', py_str num, ''--repo'', repo env,
                      ''--body-file'', tmppath env], Exited0)]
              else [])
           @ [([''gh'', ''issue'', ''close'', py_str num, ''--repo'', repo env,
                ''--reason'', reason], Exited0)]"
  shows "calls w' = calls w @ expected
         \<and> (\<exists>entry. mark_triaged env (w\<lparr>calls := calls w @ expected\<rparr>) num ''closed''
                         (py_strip c \<noteq> []) (JStr []) = Inr (entry, w')
                \<and> payload = JObj [(''ok'', JBool True), (''action'', JStr ''closed''),
                                   (''entry'', JObj entry)])"
proof -
  have dc: "do_close env w num (JStr c) reason (JArr (map JStr sent)) = (Resp 200 payload, w')"
    using assms(1-10) by (auto simp: handle_action_def Let_def)
  obtain res w1 where al: "add_labels env num (map JStr sent) w = (res, w1)"
    by (cases "add_labels env num (map JStr sent) w")
  have res: "res = None"
  proof (cases res)
    case (Some o1)
    with add_labels_strings[OF al] obtain msg where "res = Some (failure_json msg)" by auto
    then show ?thesis using dc al by (simp add: do_close_def failure_json_def)
  qed
  with add_labels_strings[OF al]
  have w1: "w1 = w\<lparr>calls := calls w @ map (\<lambda>l. (label_args env num l, Exited0)) sent\<rparr>"
    by (simp add: failure_json_def)
  let ?post = "comment_args env num"
  show ?thesis
  proof (cases "py_strip c \<noteq> []")
    case False
    then have "close_and_record env w1 num c reason = (Resp 200 payload, w')"
      using dc al res by (simp add: do_close_def)
    from close_and_record_success[OF this] show ?thesis
      using False w1 assms(11)
      by (auto simp: label_args_def close_args_def dest: mark_triaged_keeps_calls)
  next
    case True
    let ?r = "gh env (calls w1) ?post"
    let ?w2 = "w1\<lparr>calls := calls w1 @ [(?post, ?r)]\<rparr>"
    have ok: "?r = Exited0"
    proof (rule ccontr)
      assume "?r \<noteq> Exited0"
      then have "\<not> fst (gh_outcome ?r)" by (simp add: gh_outcome_ok)
      then show False using dc al res True
        by (auto simp: do_close_def run_gh_def Let_def failure_json_def split: prod.splits)
    qed
    then have "close_and_record env ?w2 num c reason = (Resp 200 payload, w')"
      using dc al res True
      by (auto simp: do_close_def run_gh_def Let_def gh_outcome_def)
    from close_and_record_success[OF this] show ?thesis
      using True w1 ok assms(11)
      by (auto simp: label_args_def close_args_def comment_args_def
          dest: mark_triaged_keeps_calls)
  qed
qed

text \<open>
  The close_wontfix request with a comment and the label \<open>stale\<close>: four runs, \<open>wontfix\<close>
  first, the close last.
\<close>

theorem close_call_order_witness:
  "calls (snd (handle_action ex_env ex_world ''req-wontfix'')) =
     [([''gh'', ''issue'', ''edit'', ''102'', ''--repo'', ''owner/repo'',
        ''--add-label'', ''wontfix''], Exited0),
      ([''gh'', ''issue'', ''edit'', ''102'', ''--repo'', ''owner/repo'',
        ''--add-label'', ''stale''], Exited0),
      ([''gh'', ''issue'', ''comment'', ''102'', ''--repo'', ''owner/repo'',
        ''--body-file'', ''/tmp/tmpk3v9.md''], Exited0),
      ([''gh'', ''issue'', ''close'', ''102'', ''--repo'', ''owner/repo'',
        ''--reason'', ''not planned''], Exited0)]"
proof -
  let ?res = "handle_action ex_env ex_world ''req-wontfix''"
  have s: "py_strip ''Stale issue.'' \<noteq> []" by (simp add: py_strip_def is_space_def)
  have h: "?res = (Resp 200 (JObj [(''ok'', JBool True), (''action'', JStr ''closed''),
        (''entry'', JObj [(''action'', JStr ''closed''),
                          (''at'', JStr ''2025-03-01T09:30:00+00:00''),
                          (''comment_posted'', JBool True)])]), snd ?res)"
    using ex_wontfix_run by (metis prod.collapse)
  from close_call_order[of ex_env "''req-wontfix''" ex_body_wontfix "PyInt 102"
      "''close_wontfix''" "''Stale issue.''" "[''stale'']" ex_world _ "snd ?res",
      OF _ _ _ _ _ _ _ h refl refl refl] s
  show ?thesis
    by (simp add: ex_env_def ex_loads_def ex_texts_def ex_body_wontfix_def ex_world_def
        dict_get_def str_int_102)
qed

text \<open>
  Against claim C2 as stated: a successful close request with the label \<open>bug\<close> and the
  comment \<open>" "\<close> (a non-empty text) runs a label call first and posts no comment.
\<close>

theorem close_call_order_counterexample:
  "fst (handle_action ex_env ex_world ''req-close-labels'') =
     Resp 200 (JObj [(''ok'', JBool True), (''action'', JStr ''closed''),
        (''entry'', JObj [(''action'', JStr ''closed''),
                          (''at'', JStr ''2025-03-01T09:30:00+00:00'')])])
   \<and> calls (snd (handle_action ex_env ex_world ''req-close-labels'')) =
       [([''gh'', ''issue'', ''edit'', ''102'', ''--repo'', ''owner/repo'',
          ''--add-label'', ''bug''], Exited0),
        ([''gh'', ''issue'', ''close'', ''102'', ''--repo'', ''owner/repo'',
          ''--reason'', ''completed''], Exited0)]"
  by (simp add: handler_defs store_defs ex_defs str_int_102 py_strip_def is_space_def)

section \<open>The dashboard query\<close>

text \<open>
  Claim C6, at an input where the code departs from it. Issues 103 and 100 have no
  finding and their rows show the verdict \<open>pending\<close> and the confidence \<open>PENDING\<close>, yet
  the filters \<open>verdict=pending\<close> and \<open>confidence=PENDING\<close> select no issue: the filters
  compare with \<open>.get("verdict")\<close> and \<open>.get("confidence")\<close>, which have no default.
\<close>

theorem pending_filter_selects_nothing:
  "dashboard_rows ex_issues ex_findings [] ex_filter_verdict_pending = []
   \<and> dashboard_rows ex_issues ex_findings [] ex_filter_confidence_pending = []
   \<and> map (row_verdict (findings_by_num ex_findings)) ex_issues
       = [''pending'', ''still_open'', ''likely_resolved'', ''pending'']
   \<and> map (row_confidence (findings_by_num ex_findings)) ex_issues
       = [''PENDING'', ''MEDIUM'', ''HIGH'', ''PENDING'']"
  by (simp add: dash_defs ex_dash_defs)

text \<open>
  Claim C7, as the code has it. The rows are the filtered issues, rearranged. Sorting by
  confidence orders them by the rank HIGH 0, MEDIUM 1, LOW 2, PENDING 3, an issue with no
  confidence (or an unknown one) ranking 3; sorting by age orders them by the created
  timestamp, ascending; any other sort orders them by issue number, ascending. Each sort is
  stable: issues with equal keys keep the order they have in the issue list.
\<close>

theorem sort_orders:
  assumes "fbn = findings_by_num findings"
    and "filtered = apply_filters fbn triaged filters issues"
    and "rows = dashboard_rows issues findings triaged filters"
    and "sort_by = filter_get filters ''sort'' ''number''"
  shows "mset rows = mset filtered
     \<and> (sort_by = ''age'' \<longrightarrow>
          sorted (map age_key rows)
          \<and> (\<forall>k. filter (\<lambda>i. age_key i = k) rows = filter (\<lambda>i. age_key i = k) filtered))
     \<and> (sort_by = ''confidence'' \<longrightarrow>
          sorted (map (confidence_key fbn) rows)
          \<and> (\<forall>k. filter (\<lambda>i. confidence_key fbn i = k) rows
                 = filter (\<lambda>i. confidence_key fbn i = k) filtered))
     \<and> (sort_by \<noteq> ''age'' \<and> sort_by \<noteq> ''confidence'' \<longrightarrow>
          sorted (map i_number rows)
          \<and> (\<forall>k. filter (\<lambda>i. i_number i = k) rows = filter (\<lambda>i. i_number i = k) filtered))
     \<and> (\<forall>i. confidence_key fbn i =
            (case confidence_of fbn i of
               None \<Rightarrow> 3
             | Some c \<Rightarrow> if c = ''HIGH'' then 0 else if c = ''MEDIUM'' then 1
                         else if c = ''LOW'' then 2 else 3))"
proof -
  have rows: "rows = apply_sort fbn filters filtered"
    using assms(1-3) by (simp add: dashboard_rows_def Let_def)
  have 1: "mset rows = mset filtered"
    by (simp add: rows apply_sort_def Let_def)
  have 2: "sort_by = ''age'' \<longrightarrow>
          sorted (map age_key rows)
          \<and> (\<forall>k. filter (\<lambda>i. age_key i = k) rows = filter (\<lambda>i. age_key i = k) filtered)"
    using assms(4) by (simp add: rows apply_sort_def Let_def sort_key_stable)
  have 3: "sort_by = ''confidence'' \<longrightarrow>
          sorted (map (confidence_key fbn) rows)
          \<and> (\<forall>k. filter (\<lambda>i. confidence_key fbn i = k) rows
                 = filter (\<lambda>i. confidence_key fbn i = k) filtered)"
    using assms(4) by (simp add: rows apply_sort_def Let_def sort_key_stable)
  have 4: "sort_by \<noteq> ''age'' \<and> sort_by \<noteq> ''confidence'' \<longrightarrow>
          sorted (map i_number rows)
          \<and> (\<forall>k. filter (\<lambda>i. i_number i = k) rows = filter (\<lambda>i. i_number i = k) filtered)"
    using assms(4) by (simp add: rows apply_sort_def Let_def sort_key_stable)
  have 5: "\<forall>i. confidence_key fbn i =
            (case confidence_of fbn i of
               None \<Rightarrow> 3
             | Some c \<Rightarrow> if c = ''HIGH'' then 0 else if c = ''MEDIUM'' then 1
                         else if c = ''LOW'' then 2 else 3)"
    by (simp add: confidence_key_def confidence_order_def split: option.splits)
  from 1 2 3 4 5 show ?thesis by blast
qed

text \<open>
  The three sorts on the example issues: each result holds the same issues and is in the
  order of its key; the two issues of rank 3 keep their order.
\<close>

theorem sort_orders_witness:
  "mset (dashboard_rows ex_issues ex_findings [] ex_sort_confidence) = mset ex_issues
   \<and> sorted (map (confidence_key (findings_by_num ex_findings))
               (dashboard_rows ex_issues ex_findings [] ex_sort_confidence))
   \<and> filter (\<lambda>i. confidence_key (findings_by_num ex_findings) i = 3)
        (dashboard_rows ex_issues ex_findings [] ex_sort_confidence)
      = filter (\<lambda>i. confidence_key (findings_by_num ex_findings) i = 3) ex_issues
   \<and> sorted (map age_key (dashboard_rows ex_issues ex_findings [] ex_sort_age))
   \<and> sorted (map i_number (dashboard_rows ex_issues ex_findings [] ex_no_filters))"
proof -
  have f1: "apply_filters (findings_by_num ex_findings) [] ex_sort_confidence ex_issues
              = ex_issues"
    by (simp add: apply_filters_def filter_get_def ex_sort_confidence_def Let_def)
  have f2: "apply_filters (findings_by_num ex_findings) [] ex_sort_age ex_issues = ex_issues"
    by (simp add: apply_filters_def filter_get_def ex_sort_age_def Let_def)
  have s1: "filter_get ex_sort_confidence ''sort'' ''number'' = ''confidence''"
    by (simp add: filter_get_def ex_sort_confidence_def)
  have s2: "filter_get ex_sort_age ''sort'' ''number'' = ''age''"
    by (simp add: filter_get_def ex_sort_age_def)
  have s3: "filter_get ex_no_filters ''sort'' ''number'' = ''number''"
    by (simp add: filter_get_def ex_no_filters_def)
  from sort_orders[OF refl refl refl refl, of ex_issues ex_findings "[]" ex_sort_confidence]
  have a: "mset (dashboard_rows ex_issues ex_findings [] ex_sort_confidence) = mset ex_issues
     \<and> sorted (map (confidence_key (findings_by_num ex_findings))
               (dashboard_rows ex_issues ex_findings [] ex_sort_confidence))
     \<and> filter (\<lambda>i. confidence_key (findings_by_num ex_findings) i = 3)
        (dashboard_rows ex_issues ex_findings [] ex_sort_confidence)
      = filter (\<lambda>i. confidence_key (findings_by_num ex_findings) i = 3) ex_issues"
    unfolding f1 s1 by blast
  from sort_orders[OF refl refl refl refl, of ex_issues ex_findings "[]" ex_sort_age]
  have b: "sorted (map age_key (dashboard_rows ex_issues ex_findings [] ex_sort_age))"
    unfolding s2 by blast
  from sort_orders[OF refl refl refl refl, of ex_issues ex_findings "[]" ex_no_filters]
  have c: "sorted (map i_number (dashboard_rows ex_issues ex_findings [] ex_no_filters))"
    unfolding s3 by (simp only: list.inject char.inject simp_thms)
  from a b c show ?thesis by simp
qed

text \<open>
  Against claim C7 as stated: sorted by confidence, issue 103 comes before issue 100 (both
  rank 3), and sorted by age, issue 103 comes before issue 102 (same timestamp): ties keep
  the order of the issue list, not the order of the issue numbers.
\<close>

theorem sort_ties_counterexample:
  "map i_number (dashboard_rows ex_issues ex_findings [] ex_sort_confidence)
     = [101, 102, 103, 100]
   \<and> map i_number (dashboard_rows ex_issues ex_findings [] ex_sort_age)
     = [100, 101, 103, 102]"
  by (simp add: dash_defs ex_dash_defs)

end
